theory Spec2Isabelle
  imports Main "HOL-Library.Word"
begin

unbundle bit_operations_syntax

section \<open>Errors\<close>

text \<open>
  Go's \<open>error\<close> values as they occur in \<open>models/group_invitations.go\<close>. The
  constructors named after the \<open>session\<close> package are values of the type
  \<open>session.Error\<close>; \<open>OtherError\<close> is any other error (an error of
  \<open>database/sql\<close> or of the driver, the error of \<open>crypto/rand\<close>), with its message. \<open>ServerError\<close> and
  \<open>TransactionError\<close> wrap the error they are built from.
\<close>

datatype error =
    TooManyGroupInvitationsError
  | ForbiddenError
  | InvalidGroupInvitationCodeError
  | ServerError error
  | TransactionError error
  | OtherError string

text \<open>The type assertion \<open>err.(session.Error)\<close>.\<close>

fun is_session_Error :: "error \<Rightarrow> bool" where
  "is_session_Error (OtherError m) = False"
| "is_session_Error e = True"

section \<open>The verification code generator\<close>

type_synonym byte = "8 word"

text \<open>The array \<open>var b [8]byte\<close>, \<open>b[0]\<close> first.\<close>

type_synonym bytes8 = "byte \<times> byte \<times> byte \<times> byte \<times> byte \<times> byte \<times> byte \<times> byte"

text \<open>
  \<open>binary.LittleEndian.Uint64\<close>:
  \<open>uint64(b[0]) | uint64(b[1])<<8 | ... | uint64(b[7])<<56\<close>.
\<close>

fun Uint64 :: "bytes8 \<Rightarrow> 64 word" where
  "Uint64 (b0, b1, b2, b3, b4, b5, b6, b7) =
     ucast b0 OR push_bit 8 (ucast b1) OR push_bit 16 (ucast b2) OR push_bit 24 (ucast b3)
       OR push_bit 32 (ucast b4) OR push_bit 40 (ucast b5) OR push_bit 48 (ucast b6)
       OR push_bit 56 (ucast b7)"

text \<open>
  The little-endian value in the words of the specification: byte \<open>i\<close> weighs
  \<open>256 ^ i\<close>.
\<close>

fun little_endian_value :: "bytes8 \<Rightarrow> nat" where
  "little_endian_value (b0, b1, b2, b3, b4, b5, b6, b7) =
     unat b0 + 256 * unat b1 + 256 ^ 2 * unat b2 + 256 ^ 3 * unat b3 + 256 ^ 4 * unat b4
       + 256 ^ 5 * unat b5 + 256 ^ 6 * unat b6 + 256 ^ 7 * unat b7"

text \<open>\<open>fmt.Sprint\<close> of an unsigned integer: its decimal digits, no sign, no padding.\<close>

definition digit_char :: "nat \<Rightarrow> char" where
  "digit_char d = char_of (48 + d)"

function Sprint :: "nat \<Rightarrow> string" where
  "Sprint n = (if n < 10 then [digit_char n] else Sprint (n div 10) @ [digit_char (n mod 10)])"
  by pat_completeness auto
termination
  by (relation "measure id") auto

declare Sprint.simps [simp del]

text \<open>Reading a decimal string back, and the test for a decimal digit.\<close>

definition is_digit :: "char \<Rightarrow> bool" where
  "is_digit c = (48 \<le> (of_char c :: nat) \<and> (of_char c :: nat) \<le> 57)"

definition decimal_value :: "string \<Rightarrow> nat" where
  "decimal_value s = foldl (\<lambda>a c. 10 * a + ((of_char c :: nat) - 48)) 0 s"

text \<open>
  \<open>generateVerificationCode\<close>. The argument is the outcome of \<open>rand.Read(b[:])\<close>:
  the error, or the eight bytes the array holds afterwards.
\<close>

definition generateVerificationCode :: "string + bytes8 \<Rightarrow> error + string" where
  "generateVerificationCode r =
     (case r of
        Inl cause \<Rightarrow> Inl (ServerError (OtherError cause))
      | Inr b \<Rightarrow>
          let c = Uint64 b mod 10000;
              c = (if c < 1000 then 1000 + c else c)
          in Inr (Sprint (unat c)))"

section \<open>\<open>strings.TrimSpace\<close>\<close>

text \<open>
  A Go string is a sequence of bytes holding UTF-8. \<open>strings.TrimSpace\<close> removes from
  both ends every code point for which \<open>unicode.IsSpace\<close> holds: tab, line feed,
  vertical tab, form feed, carriage return, space, U+0085, U+00A0, U+1680, U+2000 to
  U+200A, U+2028, U+2029, U+202F, U+205F and U+3000. A code point is decoded at the start
  (or found at the end) of the string exactly when the string starts (or ends) with its
  UTF-8 encoding, so the table below lists the encodings.
\<close>

definition space_encodings :: "string list" where
  "space_encodings =
    [[CHR 0x09], [CHR 0x0A], [CHR 0x0B], [CHR 0x0C], [CHR 0x0D], [CHR 0x20],
     [CHR 0xC2, CHR 0x85], [CHR 0xC2, CHR 0xA0],
     [CHR 0xE1, CHR 0x9A, CHR 0x80],
     [CHR 0xE2, CHR 0x80, CHR 0x80], [CHR 0xE2, CHR 0x80, CHR 0x81],
     [CHR 0xE2, CHR 0x80, CHR 0x82], [CHR 0xE2, CHR 0x80, CHR 0x83],
     [CHR 0xE2, CHR 0x80, CHR 0x84], [CHR 0xE2, CHR 0x80, CHR 0x85],
     [CHR 0xE2, CHR 0x80, CHR 0x86], [CHR 0xE2, CHR 0x80, CHR 0x87],
     [CHR 0xE2, CHR 0x80, CHR 0x88], [CHR 0xE2, CHR 0x80, CHR 0x89],
     [CHR 0xE2, CHR 0x80, CHR 0x8A],
     [CHR 0xE2, CHR 0x80, CHR 0xA8], [CHR 0xE2, CHR 0x80, CHR 0xA9],
     [CHR 0xE2, CHR 0x80, CHR 0xAF],
     [CHR 0xE2, CHR 0x81, CHR 0x9F],
     [CHR 0xE3, CHR 0x80, CHR 0x80]]"

text \<open>The number of bytes of the white-space code point that \<open>s\<close> starts with, 0 if none.\<close>

definition leading_space :: "string list \<Rightarrow> string \<Rightarrow> nat" where
  "leading_space table s =
     (case find (\<lambda>e. e \<noteq> [] \<and> take (length e) s = e) table of
        None \<Rightarrow> 0
      | Some e \<Rightarrow> length e)"

function trim_left :: "string list \<Rightarrow> string \<Rightarrow> string" where
  "trim_left table s =
     (if leading_space table s = 0 then s
      else trim_left table (drop (leading_space table s) s))"
  by pat_completeness auto
termination
proof (relation "measure (\<lambda>(table, s). length s)")
  show "wf (measure (\<lambda>(table, s). length s))"
    by simp
next
  fix table :: "string list" and s :: string
  assume "leading_space table s \<noteq> 0"
  then obtain e where "e \<noteq> []" and "take (length e) s = e"
    by (auto simp: leading_space_def find_Some_iff split: option.splits)
  then have "s \<noteq> []"
    by auto
  with \<open>leading_space table s \<noteq> 0\<close>
  show "((table, drop (leading_space table s) s), (table, s)) \<in> measure (\<lambda>(table, s). length s)"
    by simp
qed

declare trim_left.simps [simp del]

definition TrimSpace :: "string \<Rightarrow> string" where
  "TrimSpace s =
     rev (trim_left (map rev space_encodings) (rev (trim_left space_encodings s)))"

section \<open>The store\<close>

type_synonym time = int

text \<open>
  \<open>GroupInvitation\<close>, as declared. The zero \<open>time.Time\<close> is the time 0.
\<close>

record GroupInvitation =
  InvitationID :: string
  GroupID :: string
  Email :: string
  Code :: string
  SentAt :: time
  CreatedAt :: time

text \<open>
  The types \<open>User\<close>, \<open>Group\<close> and \<open>Participant\<close> are declared in other files of
  the package; these are the fields the two operations read or write. \<open>User_Email\<close> is
  \<open>user.Email.String\<close>; \<open>Group_User\<close> is the pointer \<open>group.User\<close>, \<open>None\<close> for nil.
\<close>

record User =
  User_UserID :: string
  User_Email :: string

record Group =
  Group_GroupID :: string
  Group_UserID :: string
  Group_UsersCount :: int
  Group_User :: "User option"
  Group_Role :: string

record Participant =
  Participant_GroupID :: string
  Participant_UserID :: string
  Participant_Role :: string
  Participant_Source :: string

text \<open>The tables the two operations touch, each a list of rows.\<close>

record Store =
  groups :: "Group list"
  users :: "User list"
  participants :: "Participant list"
  group_invitations :: "GroupInvitation list"

text \<open>
  What the operations take from outside the store: for each statement sent to the
  database whether the driver fails it (and with which message), the identifier
  \<open>uuid.NewV4\<close> yields (\<open>uuid.Must\<close> is taken not to panic), the clock, and the
  outcome of \<open>rand.Read\<close>. A failed statement changes nothing.
\<close>

datatype query =
    CountInvitations | FindGroup | InsertInvitation | FindInvitation | FindUser
  | CountParticipants | UpdateGroup | CreateParticipant | DeleteInvitation

record Env =
  fails :: "query \<Rightarrow> string option"
  uuid_NewV4 :: string
  time_Now :: time
  rand_Read :: "string + bytes8"

text \<open>
  Modelled from the spec: \<open>RunInTransaction\<close> of the package \<open>durable\<close> is not among the
  sources. It runs the function on a transaction of the database; the transaction is
  committed on normal return and rolled back on any error. The first component is the
  value the function left in the variable it captures.
\<close>

definition RunInTransaction ::
  "Store \<Rightarrow> (Store \<Rightarrow> 'a \<times> Store \<times> error option) \<Rightarrow> 'a \<times> Store \<times> error option" where
  "RunInTransaction database fn =
     (case fn database of
        (v, tx, None) \<Rightarrow> (v, tx, None)
      | (v, tx, Some err) \<Rightarrow> (v, database, Some err))"

text \<open>
  Modelled from the spec: \<open>findGroup\<close> is not among the sources;
  \<open>findGroupByID(groupID) -> Group | absent\<close>.
\<close>

definition findGroup :: "Env \<Rightarrow> Store \<Rightarrow> string \<Rightarrow> error + Group option" where
  "findGroup env tx groupID =
     (case fails env FindGroup of
        Some m \<Rightarrow> Inl (OtherError m)
      | None \<Rightarrow> Inr (find (\<lambda>g. Group_GroupID g = groupID) (groups tx)))"

text \<open>
  Modelled from the spec: \<open>findUserByID\<close> is not among the sources;
  \<open>findUserByID(userID) -> User | absent\<close>.
\<close>

definition findUserByID :: "Env \<Rightarrow> Store \<Rightarrow> string \<Rightarrow> error + User option" where
  "findUserByID env tx userID =
     (case fails env FindUser of
        Some m \<Rightarrow> Inl (OtherError m)
      | None \<Rightarrow> Inr (find (\<lambda>u. User_UserID u = userID) (users tx)))"

text \<open>
  Modelled from the spec: the constants \<open>ParticipantRoleVIP\<close> and
  \<open>ParticipantSourceInvitation\<close> are not among the sources; the role is "VIP" and the
  source is "invitation".
\<close>

definition ParticipantRoleVIP :: string where
  "ParticipantRoleVIP = ''VIP''"

definition ParticipantSourceInvitation :: string where
  "ParticipantSourceInvitation = ''invitation''"

text \<open>
  Modelled from the spec: \<open>createParticipant\<close> is not among the sources;
  \<open>createParticipant(group, userID, source) -> Participant\<close> persists the role and the
  source inside the caller's transaction. The role is the one the caller has put on the
  group.
\<close>

definition createParticipant ::
  "Env \<Rightarrow> Store \<Rightarrow> Group \<Rightarrow> string \<Rightarrow> string \<Rightarrow> error + Participant \<times> Store" where
  "createParticipant env tx grp userID source =
     (case fails env CreateParticipant of
        Some m \<Rightarrow> Inl (OtherError m)
      | None \<Rightarrow>
          let p = \<lparr>Participant_GroupID = Group_GroupID grp, Participant_UserID = userID,
                   Participant_Role = Group_Role grp, Participant_Source = source\<rparr>
          in Inr (p, tx\<lparr>participants := participants tx @ [p]\<rparr>))"

text \<open>\<open>SELECT count(*) FROM group_invitations WHERE group_id=$1\<close>, scanned into an int64.\<close>

definition countGroupInvitations :: "Env \<Rightarrow> Store \<Rightarrow> string \<Rightarrow> error + int" where
  "countGroupInvitations env tx groupID =
     (case fails env CountInvitations of
        Some m \<Rightarrow> Inl (OtherError m)
      | None \<Rightarrow> Inr (int (length (filter (\<lambda>i. GroupID i = groupID) (group_invitations tx)))))"

text \<open>
  \<open>INSERT INTO group_invitations\<close> under \<open>groupInvitationsDDL\<close>: the primary key
  \<open>invitation_id\<close>, the unique index on \<open>(group_id, email)\<close> and the reference to
  \<open>groups\<close>.
\<close>

definition insertGroupInvitation :: "Env \<Rightarrow> Store \<Rightarrow> GroupInvitation \<Rightarrow> error + Store" where
  "insertGroupInvitation env tx invitation =
     (case fails env InsertInvitation of
        Some m \<Rightarrow> Inl (OtherError m)
      | None \<Rightarrow>
          if list_ex (\<lambda>i. InvitationID i = InvitationID invitation) (group_invitations tx)
          then Inl (OtherError ''duplicate key value violates unique constraint group_invitations_pkey'')
          else if list_ex (\<lambda>i. GroupID i = GroupID invitation \<and> Email i = Email invitation)
                    (group_invitations tx)
          then Inl (OtherError ''duplicate key value violates unique constraint group_invitations_group_emailx'')
          else if \<not> list_ex (\<lambda>g. Group_GroupID g = GroupID invitation) (groups tx)
          then Inl (OtherError ''insert or update on table group_invitations violates foreign key constraint'')
          else Inr (tx\<lparr>group_invitations := group_invitations tx @ [invitation]\<rparr>))"

text \<open>
  \<open>findGroupInvitationByGroupIDAndEmail\<close> with \<open>groupInvitationFromRows\<close>: the first
  row for the pair, nil when there is none.
\<close>

definition findGroupInvitationByGroupIDAndEmail ::
  "Env \<Rightarrow> Store \<Rightarrow> string \<Rightarrow> string \<Rightarrow> error + GroupInvitation option" where
  "findGroupInvitationByGroupIDAndEmail env tx groupID email =
     (case fails env FindInvitation of
        Some m \<Rightarrow> Inl (OtherError m)
      | None \<Rightarrow> Inr (find (\<lambda>i. GroupID i = groupID \<and> Email i = email) (group_invitations tx)))"

text \<open>\<open>SELECT count(*) FROM participants WHERE group_id=$1\<close>.\<close>

definition countParticipants :: "Env \<Rightarrow> Store \<Rightarrow> string \<Rightarrow> error + int" where
  "countParticipants env tx groupID =
     (case fails env CountParticipants of
        Some m \<Rightarrow> Inl (OtherError m)
      | None \<Rightarrow> Inr (int (length (filter (\<lambda>p. Participant_GroupID p = groupID) (participants tx)))))"

text \<open>\<open>UPDATE groups SET users_count=$1 WHERE group_id=$2\<close>.\<close>

definition updateUsersCount :: "Env \<Rightarrow> Store \<Rightarrow> int \<Rightarrow> string \<Rightarrow> error + Store" where
  "updateUsersCount env tx usersCount groupID =
     (case fails env UpdateGroup of
        Some m \<Rightarrow> Inl (OtherError m)
      | None \<Rightarrow>
          Inr (tx\<lparr>groups :=
                 map (\<lambda>g. if Group_GroupID g = groupID then g\<lparr>Group_UsersCount := usersCount\<rparr> else g)
                   (groups tx)\<rparr>))"

text \<open>\<open>DELETE FROM group_invitations WHERE invitation_id=$1\<close>.\<close>

definition deleteGroupInvitation :: "Env \<Rightarrow> Store \<Rightarrow> string \<Rightarrow> error + Store" where
  "deleteGroupInvitation env tx invitationID =
     (case fails env DeleteInvitation of
        Some m \<Rightarrow> Inl (OtherError m)
      | None \<Rightarrow>
          Inr (tx\<lparr>group_invitations :=
                 filter (\<lambda>i. InvitationID i \<noteq> invitationID) (group_invitations tx)\<rparr>))"

section \<open>Issuing an invitation\<close>

definition MaxGroupInvitations :: int where
  "MaxGroupInvitations = 7"

text \<open>
  The function \<open>CreateGroupInvitation\<close> hands to \<open>RunInTransaction\<close>. It returns the
  value it leaves in the captured variable \<open>invitation\<close>, the transaction's store and
  the error it returns (\<open>None\<close> for nil).
\<close>

definition CreateGroupInvitation_tx ::
  "Env \<Rightarrow> User \<Rightarrow> string \<Rightarrow> string \<Rightarrow> Store \<Rightarrow> GroupInvitation option \<times> Store \<times> error option" where
  "CreateGroupInvitation_tx env user groupID email tx =
     (case countGroupInvitations env tx groupID of
        Inl err \<Rightarrow> (None, tx, Some err)
      | Inr count \<Rightarrow>
          if count > 7 then (None, tx, Some TooManyGroupInvitationsError)
          else
            (case findGroup env tx groupID of
               Inl err \<Rightarrow> (None, tx, Some err)
             | Inr None \<Rightarrow> (None, tx, None)
             | Inr (Some grp) \<Rightarrow>
                 if User_UserID user \<noteq> Group_UserID grp then (None, tx, Some ForbiddenError)
                 else
                   let invitation =
                         \<lparr>InvitationID = uuid_NewV4 env, GroupID = Group_GroupID grp,
                          Email = email, Code = [], SentAt = 0, CreatedAt = time_Now env\<rparr>
                   in (case generateVerificationCode (rand_Read env) of
                         Inl err \<Rightarrow> (Some invitation, tx, Some err)
                       | Inr code \<Rightarrow>
                           let invitation = invitation\<lparr>Code := code\<rparr>
                           in (case insertGroupInvitation env tx invitation of
                                 Inl err \<Rightarrow> (Some invitation, tx, Some err)
                               | Inr tx' \<Rightarrow> (Some invitation, tx', None)))))"

text \<open>
  \<open>CreateGroupInvitation\<close>: the result (\<open>Inl\<close> the error; \<open>Inr None\<close> for a nil
  invitation and a nil error) and the store afterwards.
\<close>

definition CreateGroupInvitation ::
  "Env \<Rightarrow> Store \<Rightarrow> User \<Rightarrow> string \<Rightarrow> string \<Rightarrow> (error + GroupInvitation option) \<times> Store" where
  "CreateGroupInvitation env database user groupID email =
     (case RunInTransaction database (CreateGroupInvitation_tx env user groupID email) of
        (invitation, database', Some err) \<Rightarrow>
          if is_session_Error err then (Inl err, database')
          else (Inl (TransactionError err), database')
      | (invitation, database', None) \<Rightarrow> (Inr invitation, database'))"

section \<open>Redeeming an invitation\<close>

text \<open>
  The function \<open>JoinGroupByInvitation\<close> hands to \<open>RunInTransaction\<close>, with the value it
  leaves in the captured variable \<open>group\<close>.
\<close>

definition JoinGroupByInvitation_tx ::
  "Env \<Rightarrow> User \<Rightarrow> string \<Rightarrow> string \<Rightarrow> Store \<Rightarrow> Group option \<times> Store \<times> error option" where
  "JoinGroupByInvitation_tx env user groupID code tx =
     (case findGroup env tx groupID of
        Inl err \<Rightarrow> (None, tx, Some err)
      | Inr None \<Rightarrow> (None, tx, None)
      | Inr (Some grp) \<Rightarrow>
          (case findGroupInvitationByGroupIDAndEmail env tx (Group_GroupID grp) (User_Email user) of
             Inl err \<Rightarrow> (Some grp, tx, Some err)
           | Inr None \<Rightarrow> (Some grp, tx, None)
           | Inr (Some invitation) \<Rightarrow>
               if Code invitation \<noteq> TrimSpace code
               then (Some grp, tx, Some InvalidGroupInvitationCodeError)
               else
                 (case findUserByID env tx (Group_UserID grp) of
                    Inl err \<Rightarrow> (Some grp, tx, Some err)
                  | Inr owner \<Rightarrow>
                      let grp = grp\<lparr>Group_User := owner\<rparr>
                      in (case countParticipants env tx groupID of
                            Inl err \<Rightarrow> (Some grp, tx, Some err)
                          | Inr count \<Rightarrow>
                              let grp = grp\<lparr>Group_UsersCount := count + 1\<rparr>
                              in (case updateUsersCount env tx (Group_UsersCount grp) (Group_GroupID grp) of
                                    Inl err \<Rightarrow> (Some grp, tx, Some err)
                                  | Inr tx1 \<Rightarrow>
                                      let grp = grp\<lparr>Group_Role := ParticipantRoleVIP\<rparr>
                                      in (case createParticipant env tx1 grp (User_UserID user)
                                                 ParticipantSourceInvitation of
                                            Inl err \<Rightarrow> (Some grp, tx1, Some err)
                                          | Inr (p, tx2) \<Rightarrow>
                                              (case deleteGroupInvitation env tx2 (InvitationID invitation) of
                                                 Inl err \<Rightarrow> (Some grp, tx2, Some err)
                                               | Inr tx3 \<Rightarrow> (Some grp, tx3, None))))))))"

text \<open>
  \<open>JoinGroupByInvitation\<close>: the result (\<open>Inl\<close> the error; \<open>Inr\<close> the captured variable
  \<open>group\<close> with a nil error) and the store afterwards.
\<close>

definition JoinGroupByInvitation ::
  "Env \<Rightarrow> Store \<Rightarrow> User \<Rightarrow> string \<Rightarrow> string \<Rightarrow> (error + Group option) \<times> Store" where
  "JoinGroupByInvitation env database user groupID code =
     (case RunInTransaction database (JoinGroupByInvitation_tx env user groupID code) of
        (grp, database', Some err) \<Rightarrow>
          if is_session_Error err then (Inl err, database')
          else (Inl (TransactionError err), database')
      | (grp, database', None) \<Rightarrow> (Inr grp, database'))"

section \<open>Notions the properties are stated with\<close>

text \<open>The number of invitation rows, and of participant rows, of a group.\<close>

definition invitation_count :: "Store \<Rightarrow> string \<Rightarrow> int" where
  "invitation_count database groupID =
     int (length (filter (\<lambda>i. GroupID i = groupID) (group_invitations database)))"

definition participant_count :: "Store \<Rightarrow> string \<Rightarrow> int" where
  "participant_count database groupID =
     int (length (filter (\<lambda>p. Participant_GroupID p = groupID) (participants database)))"

text \<open>The \<open>users_count\<close> the group's row holds.\<close>

definition stored_usersCount :: "Store \<Rightarrow> string \<Rightarrow> int option" where
  "stored_usersCount database groupID =
     map_option Group_UsersCount (find (\<lambda>g. Group_GroupID g = groupID) (groups database))"

text \<open>
  A call of \<open>JoinGroupByInvitation\<close> redeems an invitation when the group exists, the
  acting user's email has an invitation to it, the trimmed code is the stored one, and
  the driver fails none of the statements.
\<close>

definition redeemable :: "Env \<Rightarrow> Store \<Rightarrow> User \<Rightarrow> string \<Rightarrow> string \<Rightarrow> bool" where
  "redeemable env database user groupID code =
     (case find (\<lambda>g. Group_GroupID g = groupID) (groups database) of
        None \<Rightarrow> False
      | Some grp \<Rightarrow>
          (case find (\<lambda>i. GroupID i = Group_GroupID grp \<and> Email i = User_Email user)
                  (group_invitations database) of
             None \<Rightarrow> False
           | Some invitation \<Rightarrow>
               Code invitation = TrimSpace code \<and>
               list_all (\<lambda>q. fails env q = None)
                 [FindGroup, FindInvitation, FindUser, CountParticipants, UpdateGroup,
                  CreateParticipant, DeleteInvitation]))"

text \<open>
  The three writes of a redemption, applied together: the group's \<open>users_count\<close>, the
  participant row, the deletion of the invitation.
\<close>

definition redeemed :: "Store \<Rightarrow> User \<Rightarrow> string \<Rightarrow> GroupInvitation \<Rightarrow> Store" where
  "redeemed database user groupID invitation =
     database
       \<lparr>groups :=
          map (\<lambda>g. if Group_GroupID g = groupID
                    then g\<lparr>Group_UsersCount := participant_count database groupID + 1\<rparr> else g)
            (groups database),
        participants :=
          participants database @
            [\<lparr>Participant_GroupID = groupID, Participant_UserID = User_UserID user,
              Participant_Role = ''VIP'', Participant_Source = ''invitation''\<rparr>],
        group_invitations :=
          filter (\<lambda>i. InvitationID i \<noteq> InvitationID invitation) (group_invitations database)\<rparr>"

text \<open>
  A sequence of redemptions for one group, each by a user with a code, one after the
  other; \<open>None\<close> when one of the calls does not redeem an invitation.
\<close>

fun redeem_all :: "Env \<Rightarrow> Store \<Rightarrow> string \<Rightarrow> (User \<times> string) list \<Rightarrow> Store option" where
  "redeem_all env database groupID [] = Some database"
| "redeem_all env database groupID ((user, code) # calls) =
     (if redeemable env database user groupID code
      then redeem_all env (snd (JoinGroupByInvitation env database user groupID code)) groupID calls
      else None)"

section \<open>Example data\<close>

text \<open>
  A group \<open>g\<close> owned by \<open>u1\<close>, who is its only participant; \<open>u2\<close> and \<open>u3\<close> are
  other users. \<open>example_store n\<close> holds \<open>n\<close> invitations to the group.
\<close>

definition u1 :: User where
  "u1 = \<lparr>User_UserID = ''u1'', User_Email = ''owner@example.com''\<rparr>"

definition u2 :: User where
  "u2 = \<lparr>User_UserID = ''u2'', User_Email = ''a@example.com''\<rparr>"

definition u3 :: User where
  "u3 = \<lparr>User_UserID = ''u3'', User_Email = ''b@example.com''\<rparr>"

definition example_group :: Group where
  "example_group =
     \<lparr>Group_GroupID = ''g'', Group_UserID = ''u1'', Group_UsersCount = 1,
      Group_User = None, Group_Role = []\<rparr>"

definition example_invitation :: "nat \<Rightarrow> GroupInvitation" where
  "example_invitation n =
     \<lparr>InvitationID = ''inv-'' @ Sprint n, GroupID = ''g'',
      Email = ''invitee'' @ Sprint n @ ''@example.com'', Code = ''1234'',
      SentAt = 0, CreatedAt = 0\<rparr>"

definition example_store :: "nat \<Rightarrow> Store" where
  "example_store n =
     \<lparr>groups = [example_group], users = [u1, u2, u3],
      participants =
        [\<lparr>Participant_GroupID = ''g'', Participant_UserID = ''u1'',
          Participant_Role = ''OWNER'', Participant_Source = []\<rparr>],
      group_invitations = map example_invitation [0..<n]\<rparr>"

text \<open>
  An environment in which no statement fails and the random bytes are those of 12345,
  low byte first, so the code is 2345; and one in which a single statement fails.
\<close>

definition example_env :: Env where
  "example_env =
     \<lparr>fails = (\<lambda>q. None), uuid_NewV4 = ''inv-new'', time_Now = 1,
      rand_Read = Inr (0x39, 0x30, 0, 0, 0, 0, 0, 0)\<rparr>"

definition failing_env :: "query \<Rightarrow> Env" where
  "failing_env q0 =
     example_env\<lparr>fails := (\<lambda>q. if q = q0 then Some ''connection reset'' else None)\<rparr>"

text \<open>
  The store after \<open>u1\<close> has invited \<open>a@example.com\<close> and \<open>b@example.com\<close>, in
  \<open>example_env\<close> with the identifiers \<open>inv-new\<close> and \<open>inv-b\<close>.
\<close>

definition invitation_a :: GroupInvitation where
  "invitation_a =
     \<lparr>InvitationID = ''inv-new'', GroupID = ''g'', Email = ''a@example.com'',
      Code = ''2345'', SentAt = 0, CreatedAt = 1\<rparr>"

definition invitation_b :: GroupInvitation where
  "invitation_b =
     \<lparr>InvitationID = ''inv-b'', GroupID = ''g'', Email = ''b@example.com'',
      Code = ''2345'', SentAt = 0, CreatedAt = 1\<rparr>"

definition invited_store :: Store where
  "invited_store = (example_store 0)\<lparr>group_invitations := [invitation_a, invitation_b]\<rparr>"

section \<open>Auxiliary facts\<close>

lemmas store_ops =
  countGroupInvitations_def findGroup_def findUserByID_def createParticipant_def
  insertGroupInvitation_def findGroupInvitationByGroupIDAndEmail_def countParticipants_def
  updateUsersCount_def deleteGroupInvitation_def

lemma find_group_id:
  "find (\<lambda>g. Group_GroupID g = groupID) gs = Some grp \<Longrightarrow> Group_GroupID grp = groupID"
  by (auto simp: find_Some_iff)

lemma join_redeemable:
  assumes "redeemable env database user groupID code"
  shows "\<exists>grp invitation.
           find (\<lambda>g. Group_GroupID g = groupID) (groups database) = Some grp \<and>
           find (\<lambda>i. GroupID i = groupID \<and> Email i = User_Email user)
             (group_invitations database) = Some invitation \<and>
           JoinGroupByInvitation env database user groupID code =
             (Inr (Some (grp\<lparr>Group_User := find (\<lambda>u. User_UserID u = Group_UserID grp) (users database),
                             Group_UsersCount := participant_count database groupID + 1,
                             Group_Role := ''VIP''\<rparr>)),
              redeemed database user groupID invitation)"
proof -
  from assms obtain grp where g: "find (\<lambda>g. Group_GroupID g = groupID) (groups database) = Some grp"
    by (auto simp: redeemable_def split: option.splits)
  then have gid: "Group_GroupID grp = groupID" by (rule find_group_id)
  from assms g gid obtain invitation where
    i: "find (\<lambda>i. GroupID i = groupID \<and> Email i = User_Email user)
             (group_invitations database) = Some invitation"
    and c: "Code invitation = TrimSpace code"
    and f: "fails env FindGroup = None" "fails env FindInvitation = None"
      "fails env FindUser = None" "fails env CountParticipants = None"
      "fails env UpdateGroup = None" "fails env CreateParticipant = None"
      "fails env DeleteInvitation = None"
    by (auto simp: redeemable_def split: option.splits)
  have "JoinGroupByInvitation env database user groupID code =
             (Inr (Some (grp\<lparr>Group_User := find (\<lambda>u. User_UserID u = Group_UserID grp) (users database),
                             Group_UsersCount := participant_count database groupID + 1,
                             Group_Role := ''VIP''\<rparr>)),
              redeemed database user groupID invitation)"
    using g gid i c f
    by (simp add: JoinGroupByInvitation_def RunInTransaction_def JoinGroupByInvitation_tx_def
      store_ops Let_def redeemed_def participant_count_def ParticipantRoleVIP_def
      ParticipantSourceInvitation_def)
  with g i show ?thesis by blast
qed

lemma join_not_redeemable:
  "snd (JoinGroupByInvitation env database user groupID code) = database \<or>
   redeemable env database user groupID code"
  by (simp add: redeemable_def JoinGroupByInvitation_def RunInTransaction_def
      JoinGroupByInvitation_tx_def store_ops Let_def
      split: sum.split option.split prod.split)

lemma find_updated_group:
  "find (\<lambda>g. Group_GroupID g = groupID)
     (map (\<lambda>g. if Group_GroupID g = groupID then g\<lparr>Group_UsersCount := c\<rparr> else g) gs)
   = map_option (\<lambda>g. g\<lparr>Group_UsersCount := c\<rparr>) (find (\<lambda>g. Group_GroupID g = groupID) gs)"
  by (induction gs) auto

lemma redeemed_counts:
  assumes "find (\<lambda>g. Group_GroupID g = groupID) (groups database) = Some grp"
  shows "stored_usersCount (redeemed database user groupID invitation) groupID
           = Some (participant_count database groupID + 1)"
    and "participant_count (redeemed database user groupID invitation) groupID
           = participant_count database groupID + 1"
  using assms
  by (simp_all add: stored_usersCount_def redeemed_def find_updated_group participant_count_def)

lemma join_counts:
  assumes "redeemable env database user groupID code"
  shows "stored_usersCount (snd (JoinGroupByInvitation env database user groupID code)) groupID
           = Some (participant_count database groupID + 1)"
    and "participant_count (snd (JoinGroupByInvitation env database user groupID code)) groupID
           = participant_count database groupID + 1"
  using join_redeemable [OF assms] by (auto simp: redeemed_counts)

lemma redeem_all_counts:
  "redeem_all env database groupID calls = Some database' \<Longrightarrow>
   stored_usersCount database groupID = Some k \<Longrightarrow>
   participant_count database groupID = k \<Longrightarrow>
   stored_usersCount database' groupID = Some (k + int (length calls)) \<and>
   participant_count database' groupID = k + int (length calls)"
proof (induction calls arbitrary: database k)
  case Nil
  then show ?case by simp
next
  case (Cons call calls)
  obtain user code where call: "call = (user, code)"
    by (cases call)
  let ?next = "snd (JoinGroupByInvitation env database user groupID code)"
  from Cons.prems(1) call have r: "redeemable env database user groupID code"
    and rest: "redeem_all env ?next groupID calls = Some database'"
    by (auto split: if_splits)
  from join_counts [OF r] Cons.prems(3)
  have "stored_usersCount ?next groupID = Some (k + 1)" "participant_count ?next groupID = k + 1"
    by simp_all
  from Cons.IH [OF rest this] show ?case
    by simp
qed

lemma join_without_invitation:
  assumes "fails env FindGroup = None"
    and "find (\<lambda>g. Group_GroupID g = groupID) (groups database) = Some grp"
    and "fails env FindInvitation = None"
    and "find (\<lambda>i. GroupID i = groupID \<and> Email i = User_Email user)
           (group_invitations database) = None"
  shows "JoinGroupByInvitation env database user groupID code = (Inr (Some grp), database)"
  using assms find_group_id [OF assms(2)]
  by (simp add: JoinGroupByInvitation_def RunInTransaction_def JoinGroupByInvitation_tx_def
      findGroup_def findGroupInvitationByGroupIDAndEmail_def)

subsection \<open>The number of invitation rows\<close>

text \<open>
  What the comparison \<open>count > 7\<close> does keep: no call of either operation takes the
  number of a group's invitation rows above eight.
\<close>

lemma invitation_count_at_most_eight:
  assumes "invitation_count database g \<le> 8"
  shows "invitation_count (snd (CreateGroupInvitation env database user groupID email)) g \<le> 8"
proof (cases "find (\<lambda>g. Group_GroupID g = groupID) (groups database)")
  case None
  with assms show ?thesis
    by (simp add: CreateGroupInvitation_def RunInTransaction_def CreateGroupInvitation_tx_def
        countGroupInvitations_def findGroup_def split: option.split)
next
  case (Some grp)
  then have "Group_GroupID grp = groupID"
    by (rule find_group_id)
  with Some assms show ?thesis
    by (auto simp: CreateGroupInvitation_def RunInTransaction_def CreateGroupInvitation_tx_def
        countGroupInvitations_def findGroup_def insertGroupInvitation_def invitation_count_def
        Let_def split: option.split sum.split)
qed

lemma length_filter_filter_le:
  "length (filter P (filter Q xs)) \<le> length (filter P xs)"
  by (induction xs) auto

lemma join_invitation_count:
  "invitation_count (snd (JoinGroupByInvitation env database user groupID code)) g
     \<le> invitation_count database g"
proof (cases "redeemable env database user groupID code")
  case True
  from join_redeemable [OF this] show ?thesis
    by (auto simp: redeemed_def invitation_count_def length_filter_filter_le
        simp del: filter_filter)
next
  case False
  with join_not_redeemable [of env database user groupID code] show ?thesis
    by simp
qed

subsection \<open>The code generator\<close>

lemma Sprint_digits: "list_all is_digit (Sprint n)"
proof (induction n rule: Sprint.induct)
  case (1 n)
  have d: "is_digit (digit_char k)" if "k < 10" for k
    using that by (simp add: is_digit_def digit_char_def)
  show ?case
  proof (cases "n < 10")
    case True
    then show ?thesis by (subst Sprint.simps) (simp add: d)
  next
    case False
    with 1 show ?thesis by (subst Sprint.simps) (simp add: d)
  qed
qed

lemma decimal_value_snoc: "decimal_value (s @ [c]) = 10 * decimal_value s + ((of_char c :: nat) - 48)"
  by (simp add: decimal_value_def)

lemma of_char_digit: "k < 10 \<Longrightarrow> (of_char (digit_char k) :: nat) - 48 = k"
  by (simp add: digit_char_def)

lemma decimal_value_Sprint: "decimal_value (Sprint n) = n"
proof (induction n rule: Sprint.induct)
  case (1 n)
  show ?case
  proof (cases "n < 10")
    case True
    then show ?thesis by (subst Sprint.simps) (simp add: decimal_value_def of_char_digit)
  next
    case False
    with 1 show ?thesis by (subst Sprint.simps) (simp add: decimal_value_snoc of_char_digit)
  qed
qed

lemma Sprint_length4: "1000 \<le> n \<Longrightarrow> n \<le> 9999 \<Longrightarrow> length (Sprint n) = 4"
proof -
  assume a: "1000 \<le> n" "n \<le> 9999"
  have 1: "\<not> n < 10" "\<not> n div 10 < 10" "\<not> n div 10 div 10 < 10" "n div 10 div 10 div 10 < 10"
    using a by auto
  show ?thesis
    apply (subst Sprint.simps) apply (subst Sprint.simps) apply (subst Sprint.simps) apply (subst Sprint.simps)
    using 1 by simp
qed

lemma byte_bit: "bit (b :: byte) n \<Longrightarrow> n < 8"
  using bit_imp_le_length[of b n] by simp

lemma unat_byte_less: "unat (b :: byte) < 256"
  using unsigned_less [of b] by simp

lemma unat_shifted_byte:
  "n \<le> 56 \<Longrightarrow> unat (push_bit n (ucast (b :: byte) :: 64 word)) = 2 ^ n * unat b"
proof -
  assume n: "n \<le> 56"
  have "2 ^ n * unat b < 2 ^ n * 2 ^ 8"
    using unat_byte_less [of b] by simp
  also have "\<dots> = (2::nat) ^ (n + 8)" by (simp add: power_add)
  also have "\<dots> \<le> 2 ^ 64" using n by (intro power_increasing) auto
  finally have lt: "2 ^ n * unat b < 2 ^ 64" .
  have "unat b < 2 ^ 64" using unat_byte_less [of b] by simp
  have "unat (push_bit n (ucast b :: 64 word)) = take_bit 64 (push_bit n (take_bit 64 (unat b)))"
    by (simp add: unsigned_push_bit_eq unsigned_ucast_eq)
  also have "\<dots> = 2 ^ n * unat b"
    using lt \<open>unat b < 2 ^ 64\<close> by (simp add: take_bit_eq_mod push_bit_eq_mult mult.commute)
  finally show ?thesis .
qed

lemma Uint64_sum: "Uint64 (b0, b1, b2, b3, b4, b5, b6, b7) =
     ucast b0 + (push_bit 8 (ucast b1) + (push_bit 16 (ucast b2) + (push_bit 24 (ucast b3)
       + (push_bit 32 (ucast b4) + (push_bit 40 (ucast b5) + (push_bit 48 (ucast b6)
       + push_bit 56 (ucast b7)))))))"
proof -
  have d: "a AND c = 0 \<Longrightarrow> a OR c = a + c" for a c :: "64 word"
    by (simp add: disjunctive_add_eq_or)
  show ?thesis
    unfolding Uint64.simps
    apply (subst d)
    apply (auto simp: bit_eq_iff bit_simps dest: byte_bit)[1]
    apply (subst d)
    apply (auto simp: bit_eq_iff bit_simps dest: byte_bit)[1]
    apply (subst d)
    apply (auto simp: bit_eq_iff bit_simps dest: byte_bit)[1]
    apply (subst d)
    apply (auto simp: bit_eq_iff bit_simps dest: byte_bit)[1]
    apply (subst d)
    apply (auto simp: bit_eq_iff bit_simps dest: byte_bit)[1]
    apply (subst d)
    apply (auto simp: bit_eq_iff bit_simps dest: byte_bit)[1]
    apply (subst d)
    apply (auto simp: bit_eq_iff bit_simps dest: byte_bit)[1]
    apply (rule refl)
    done
qed

lemma unat_add_bounded:
  "unat (a :: 64 word) = x \<Longrightarrow> unat c = y \<Longrightarrow> x + y < 2 ^ 64 \<Longrightarrow> unat (a + c) = x + y"
  using unat_add_lem [of a c] by simp

lemma Uint64_value: "unat (Uint64 b) = little_endian_value b"
proof -
  obtain b0 b1 b2 b3 b4 b5 b6 b7 where b: "b = (b0, b1, b2, b3, b4, b5, b6, b7)"
    by (cases b) auto
  have s: "unat (ucast b0 :: 64 word) = unat b0"
    using unat_shifted_byte [of 0 b0] by simp
  note l = unat_byte_less [of b0] unat_byte_less [of b1] unat_byte_less [of b2]
    unat_byte_less [of b3] unat_byte_less [of b4] unat_byte_less [of b5]
    unat_byte_less [of b6] unat_byte_less [of b7]
  have 7: "unat (push_bit 56 (ucast b7) :: 64 word) = 2 ^ 56 * unat b7"
    by (simp add: unat_shifted_byte)
  have 6: "unat (push_bit 48 (ucast b6) + push_bit 56 (ucast b7) :: 64 word)
      = 2 ^ 48 * unat b6 + 2 ^ 56 * unat b7"
    by (rule unat_add_bounded [OF unat_shifted_byte 7]) (use l in simp_all)
  have 5: "unat (push_bit 40 (ucast b5) + (push_bit 48 (ucast b6) + push_bit 56 (ucast b7)) :: 64 word)
      = 2 ^ 40 * unat b5 + (2 ^ 48 * unat b6 + 2 ^ 56 * unat b7)"
    by (rule unat_add_bounded [OF unat_shifted_byte 6]) (use l in simp_all)
  have 4: "unat (push_bit 32 (ucast b4) + (push_bit 40 (ucast b5) + (push_bit 48 (ucast b6) + push_bit 56 (ucast b7))) :: 64 word)
      = 2 ^ 32 * unat b4 + (2 ^ 40 * unat b5 + (2 ^ 48 * unat b6 + 2 ^ 56 * unat b7))"
    by (rule unat_add_bounded [OF unat_shifted_byte 5]) (use l in simp_all)
  have 3: "unat (push_bit 24 (ucast b3) + (push_bit 32 (ucast b4) + (push_bit 40 (ucast b5) + (push_bit 48 (ucast b6) + push_bit 56 (ucast b7)))) :: 64 word)
      = 2 ^ 24 * unat b3 + (2 ^ 32 * unat b4 + (2 ^ 40 * unat b5 + (2 ^ 48 * unat b6 + 2 ^ 56 * unat b7)))"
    by (rule unat_add_bounded [OF unat_shifted_byte 4]) (use l in simp_all)
  have 2: "unat (push_bit 16 (ucast b2) + (push_bit 24 (ucast b3) + (push_bit 32 (ucast b4) + (push_bit 40 (ucast b5) + (push_bit 48 (ucast b6) + push_bit 56 (ucast b7))))) :: 64 word)
      = 2 ^ 16 * unat b2 + (2 ^ 24 * unat b3 + (2 ^ 32 * unat b4 + (2 ^ 40 * unat b5 + (2 ^ 48 * unat b6 + 2 ^ 56 * unat b7))))"
    by (rule unat_add_bounded [OF unat_shifted_byte 3]) (use l in simp_all)
  have 1: "unat (push_bit 8 (ucast b1) + (push_bit 16 (ucast b2) + (push_bit 24 (ucast b3) + (push_bit 32 (ucast b4) + (push_bit 40 (ucast b5) + (push_bit 48 (ucast b6) + push_bit 56 (ucast b7)))))) :: 64 word)
      = 2 ^ 8 * unat b1 + (2 ^ 16 * unat b2 + (2 ^ 24 * unat b3 + (2 ^ 32 * unat b4 + (2 ^ 40 * unat b5 + (2 ^ 48 * unat b6 + 2 ^ 56 * unat b7)))))"
    by (rule unat_add_bounded [OF unat_shifted_byte 2]) (use l in simp_all)
  have 0: "unat (Uint64 (b0, b1, b2, b3, b4, b5, b6, b7))
      = unat b0 + (2 ^ 8 * unat b1 + (2 ^ 16 * unat b2 + (2 ^ 24 * unat b3 + (2 ^ 32 * unat b4 + (2 ^ 40 * unat b5 + (2 ^ 48 * unat b6 + 2 ^ 56 * unat b7))))))"
    unfolding Uint64_sum
    by (rule unat_add_bounded [OF s 1]) (use l in simp)
  show ?thesis unfolding b 0 by simp
qed


lemma code_value:
  "unat (let c = Uint64 b mod 10000 in if c < 1000 then 1000 + c else c)
     = (let r = little_endian_value b mod 10000 in if r < 1000 then 1000 + r else r)"
proof -
  have m: "unat (Uint64 b mod 10000) = little_endian_value b mod 10000"
    by (simp add: unat_mod Uint64_value)
  have lt: "Uint64 b mod 10000 < 1000 \<longleftrightarrow> little_endian_value b mod 10000 < 1000"
    by (simp add: word_less_nat_alt m)
  have "unat (1000 + Uint64 b mod 10000) = 1000 + little_endian_value b mod 10000"
    if "little_endian_value b mod 10000 < 1000"
    using that unat_add_bounded [of 1000 1000 "Uint64 b mod 10000", OF _ m] by simp
  then show ?thesis
    by (simp add: Let_def lt m)
qed

section \<open>Issuing: the order of the checks\<close>

text \<open>
  Claim C10. In \<open>CreateGroupInvitation\<close> the capacity check comes before the look-up
  of the group and the ownership check: whenever the count of the group's invitations
  has been read and is above 7, the call returns \<open>TooManyGroupInvitationsError\<close> and
  leaves the store as it was, whether or not the group exists and whoever the acting
  user is.
\<close>

theorem capacity_check_first:
  assumes "fails env CountInvitations = None"
    and "invitation_count database groupID > 7"
  shows "CreateGroupInvitation env database user groupID email
           = (Inl TooManyGroupInvitationsError, database)"
  using assms
  by (simp add: CreateGroupInvitation_def RunInTransaction_def CreateGroupInvitation_tx_def
      countGroupInvitations_def invitation_count_def)

text \<open>
  With eight invitations in the store, a user who is not the owner and a call on a
  store that has no such group both get \<open>TooManyGroupInvitationsError\<close>.
\<close>

theorem capacity_check_first_witness:
  "fails example_env CountInvitations = None \<and>
   invitation_count (example_store 8) ''g'' > 7 \<and>
   User_UserID u2 \<noteq> Group_UserID example_group \<and>
   CreateGroupInvitation example_env (example_store 8) u2 ''g'' ''c@example.com''
     = (Inl TooManyGroupInvitationsError, example_store 8) \<and>
   find (\<lambda>g. Group_GroupID g = ''g'') (groups ((example_store 8)\<lparr>groups := []\<rparr>)) = None \<and>
   CreateGroupInvitation example_env ((example_store 8)\<lparr>groups := []\<rparr>) u1 ''g'' ''c@example.com''
     = (Inl TooManyGroupInvitationsError, (example_store 8)\<lparr>groups := []\<rparr>)"
proof -
  have f: "fails example_env CountInvitations = None"
    by (simp add: example_env_def)
  have c: "invitation_count (example_store 8) ''g'' > 7"
    by code_simp
  have c': "invitation_count ((example_store 8)\<lparr>groups := []\<rparr>) ''g'' > 7"
    using c by (simp add: invitation_count_def)
  have o: "User_UserID u2 \<noteq> Group_UserID example_group"
    by (simp add: u2_def example_group_def)
  show ?thesis
    using f c o capacity_check_first [OF f c, where user = u2 and email = "''c@example.com''"]
      capacity_check_first [OF f c', where user = u1 and email = "''c@example.com''"]
    by simp
qed

text \<open>
  Claim C7. When the count has been read and the capacity check passes, the group
  exists and the acting user is not its owner, \<open>CreateGroupInvitation\<close> fails with
  \<open>ForbiddenError\<close> and the store is unchanged: no invitation row is inserted.
\<close>

theorem non_owner_forbidden:
  assumes "fails env CountInvitations = None"
    and "invitation_count database groupID \<le> 7"
    and "fails env FindGroup = None"
    and "find (\<lambda>g. Group_GroupID g = groupID) (groups database) = Some grp"
    and "User_UserID user \<noteq> Group_UserID grp"
  shows "CreateGroupInvitation env database user groupID email = (Inl ForbiddenError, database)"
  using assms
  by (simp add: CreateGroupInvitation_def RunInTransaction_def CreateGroupInvitation_tx_def
      countGroupInvitations_def findGroup_def invitation_count_def)

theorem non_owner_forbidden_witness:
  "fails example_env CountInvitations = None \<and>
   invitation_count (example_store 3) ''g'' \<le> 7 \<and>
   fails example_env FindGroup = None \<and>
   find (\<lambda>g. Group_GroupID g = ''g'') (groups (example_store 3)) = Some example_group \<and>
   User_UserID u2 \<noteq> Group_UserID example_group \<and>
   CreateGroupInvitation example_env (example_store 3) u2 ''g'' ''c@example.com''
     = (Inl ForbiddenError, example_store 3)"
proof -
  have f: "fails example_env CountInvitations = None" "fails example_env FindGroup = None"
    by (simp_all add: example_env_def)
  have c: "invitation_count (example_store 3) ''g'' \<le> 7"
    by code_simp
  have g: "find (\<lambda>g. Group_GroupID g = ''g'') (groups (example_store 3)) = Some example_group"
    by (simp add: example_store_def example_group_def)
  have o: "User_UserID u2 \<noteq> Group_UserID example_group"
    by (simp add: u2_def example_group_def)
  show ?thesis
    using f c g o non_owner_forbidden [OF f(1) c f(2) g o, where email = "''c@example.com''"]
    by simp
qed

section \<open>A missing group\<close>

text \<open>
  Claim C8. A missing group is no error in either operation: \<open>CreateGroupInvitation\<close>
  on a group that does not exist, the capacity check passed, returns a nil invitation and
  a nil error, \<open>JoinGroupByInvitation\<close> on it returns a nil group and a nil error, and
  neither writes to the store.
\<close>

theorem missing_group_noop:
  assumes "fails env FindGroup = None"
    and "find (\<lambda>g. Group_GroupID g = groupID) (groups database) = None"
  shows "(fails env CountInvitations = None \<and> invitation_count database groupID \<le> 7 \<longrightarrow>
            CreateGroupInvitation env database user groupID email = (Inr None, database)) \<and>
         JoinGroupByInvitation env database user groupID code = (Inr None, database)"
  using assms
  by (simp add: CreateGroupInvitation_def RunInTransaction_def CreateGroupInvitation_tx_def
      JoinGroupByInvitation_def JoinGroupByInvitation_tx_def
      countGroupInvitations_def findGroup_def invitation_count_def)

theorem missing_group_noop_witness:
  "fails example_env FindGroup = None \<and>
   find (\<lambda>g. Group_GroupID g = ''nowhere'') (groups (example_store 3)) = None \<and>
   fails example_env CountInvitations = None \<and>
   invitation_count (example_store 3) ''nowhere'' \<le> 7 \<and>
   CreateGroupInvitation example_env (example_store 3) u1 ''nowhere'' ''c@example.com''
     = (Inr None, example_store 3) \<and>
   JoinGroupByInvitation example_env (example_store 3) u2 ''nowhere'' ''1234''
     = (Inr None, example_store 3)"
proof -
  have f: "fails example_env FindGroup = None" "fails example_env CountInvitations = None"
    by (simp_all add: example_env_def)
  have g: "find (\<lambda>g. Group_GroupID g = ''nowhere'') (groups (example_store 3)) = None"
    by (simp add: example_store_def example_group_def)
  have c: "invitation_count (example_store 3) ''nowhere'' \<le> 7"
    by code_simp
  show ?thesis
    using f g c missing_group_noop [OF f(1) g, where user = u1 and email = "''c@example.com''"]
      missing_group_noop [OF f(1) g, where user = u2 and code = "''1234''"]
    by simp
qed

section \<open>Redeeming: the code\<close>

text \<open>
  Claim C6. When the group exists and the acting user's email has an invitation to it,
  \<open>JoinGroupByInvitation\<close> fails with \<open>InvalidGroupInvitationCodeError\<close> if and only
  if the supplied code, trimmed of surrounding white space, differs from the stored code.
\<close>

theorem invalid_code_iff:
  assumes "fails env FindGroup = None"
    and "find (\<lambda>g. Group_GroupID g = groupID) (groups database) = Some grp"
    and "fails env FindInvitation = None"
    and "find (\<lambda>i. GroupID i = groupID \<and> Email i = User_Email user)
           (group_invitations database) = Some invitation"
  shows "fst (JoinGroupByInvitation env database user groupID code)
           = Inl InvalidGroupInvitationCodeError
         \<longleftrightarrow> Code invitation \<noteq> TrimSpace code"
  using assms find_group_id [OF assms(2)]
  by (auto simp: JoinGroupByInvitation_def RunInTransaction_def JoinGroupByInvitation_tx_def
      store_ops Let_def split: sum.splits option.splits if_splits prod.splits)

text \<open>
  The stored code is 2345: the code " 12x3 " is trimmed to "12x3" and refused, the code
  " 2345 " is trimmed to "2345" and not refused.
\<close>

theorem invalid_code_iff_witness:
  "fails example_env FindGroup = None \<and>
   find (\<lambda>g. Group_GroupID g = ''g'') (groups invited_store) = Some example_group \<and>
   fails example_env FindInvitation = None \<and>
   find (\<lambda>i. GroupID i = ''g'' \<and> Email i = User_Email u2) (group_invitations invited_store)
     = Some invitation_a \<and>
   Code invitation_a = ''2345'' \<and> TrimSpace '' 12x3 '' = ''12x3'' \<and>
   fst (JoinGroupByInvitation example_env invited_store u2 ''g'' '' 12x3 '')
     = Inl InvalidGroupInvitationCodeError \<and>
   TrimSpace '' 2345 '' = ''2345'' \<and>
   fst (JoinGroupByInvitation example_env invited_store u2 ''g'' '' 2345 '')
     \<noteq> Inl InvalidGroupInvitationCodeError"
proof -
  have f: "fails example_env FindGroup = None" "fails example_env FindInvitation = None"
    by (simp_all add: example_env_def)
  have g: "find (\<lambda>g. Group_GroupID g = ''g'') (groups invited_store) = Some example_group"
    by code_simp
  have i: "find (\<lambda>i. GroupID i = ''g'' \<and> Email i = User_Email u2) (group_invitations invited_store)
     = Some invitation_a"
    by code_simp
  have t: "TrimSpace '' 12x3 '' = ''12x3''" "TrimSpace '' 2345 '' = ''2345''"
    by code_simp+
  have c: "Code invitation_a = ''2345''"
    by (simp add: invitation_a_def)
  show ?thesis
    using f g i t c invalid_code_iff [OF f(1) g f(2) i, where code = "'' 12x3 ''"]
      invalid_code_iff [OF f(1) g f(2) i, where code = "'' 2345 ''"]
    by simp
qed

section \<open>The verification code\<close>

text \<open>
  Claim C5. When the random source fails, \<open>generateVerificationCode\<close> fails with
  \<open>ServerError\<close> of the cause. Otherwise it returns the decimal digits of a number
  \<open>c\<close>: the eight bytes read as an unsigned little-endian integer, reduced modulo
  10000, and 1000 added when that is below 1000. The number lies between 1000 and 9999,
  and the string has four characters, all of them digits, and reads back as \<open>c\<close>.
\<close>

theorem generateVerificationCode_range:
  "generateVerificationCode (Inl cause) = Inl (ServerError (OtherError cause)) \<and>
   (\<exists>c. generateVerificationCode (Inr b) = Inr (Sprint c) \<and>
        c = (let r = little_endian_value b mod 10000 in if r < 1000 then 1000 + r else r) \<and>
        1000 \<le> c \<and> c \<le> 9999 \<and>
        length (Sprint c) = 4 \<and> list_all is_digit (Sprint c) \<and> decimal_value (Sprint c) = c)"
proof -
  define c where "c = (let r = little_endian_value b mod 10000 in if r < 1000 then 1000 + r else r)"
  have "little_endian_value b mod 10000 < 10000"
    by simp
  then have r: "1000 \<le> c" "c \<le> 9999"
    by (auto simp: c_def Let_def)
  have "generateVerificationCode (Inr b) = Inr (Sprint c)"
    using code_value [of b] by (simp add: generateVerificationCode_def c_def Let_def)
  moreover have "generateVerificationCode (Inl cause) = Inl (ServerError (OtherError cause))"
    by (simp add: generateVerificationCode_def)
  ultimately show ?thesis
    using r c_def Sprint_length4 [OF r] Sprint_digits [of c] decimal_value_Sprint [of c]
    by blast
qed

text \<open>
  The bytes of 12345 give the code 2345; the bytes of 500 give 1500; a failing source
  gives the error.
\<close>

theorem generateVerificationCode_range_witness:
  "generateVerificationCode (Inl ''EOF'') = Inl (ServerError (OtherError ''EOF'')) \<and>
   little_endian_value (0x39, 0x30, 0, 0, 0, 0, 0, 0) = 12345 \<and>
   generateVerificationCode (Inr (0x39, 0x30, 0, 0, 0, 0, 0, 0)) = Inr ''2345'' \<and>
   little_endian_value (0xF4, 0x01, 0, 0, 0, 0, 0, 0) = 500 \<and>
   generateVerificationCode (Inr (0xF4, 0x01, 0, 0, 0, 0, 0, 0)) = Inr ''1500'' \<and>
   list_all is_digit ''1500'' \<and> decimal_value ''1500'' = 1500"
proof -
  have v: "little_endian_value (0x39, 0x30, 0, 0, 0, 0, 0, 0) = 12345"
    "little_endian_value (0xF4, 0x01, 0, 0, 0, 0, 0, 0) = 500"
    by simp_all
  have s: "Sprint 2345 = ''2345''" "Sprint 1500 = ''1500''"
    by code_simp+
  show ?thesis
    using generateVerificationCode_range [of "''EOF''" "(0x39, 0x30, 0, 0, 0, 0, 0, 0)"]
      generateVerificationCode_range [of "''EOF''" "(0xF4, 0x01, 0, 0, 0, 0, 0, 0)"]
    unfolding v
    by (auto simp: s)
qed

section \<open>Redeeming: all or nothing\<close>

text \<open>
  Claim C3. \<open>JoinGroupByInvitation\<close> is atomic. When it returns an error the store is
  as it was before the call, whichever step failed. When it returns no error the store
  is either as it was before, or it holds all three writes together: the group's
  \<open>users_count\<close>, the new participant row and the deletion of the invitation.
\<close>

theorem join_atomic:
  assumes "JoinGroupByInvitation env database user groupID code = (r, database')"
  shows "case r of
           Inl err \<Rightarrow> database' = database
         | Inr g \<Rightarrow>
             database' = database \<or>
             (\<exists>invitation.
                find (\<lambda>i. GroupID i = groupID \<and> Email i = User_Email user)
                  (group_invitations database) = Some invitation \<and>
                database' = redeemed database user groupID invitation)"
proof (cases r)
  case (Inl err)
  with assms show ?thesis
    by (auto simp: JoinGroupByInvitation_def RunInTransaction_def
        split: prod.splits option.splits if_splits)
next
  case (Inr g)
  show ?thesis
  proof (cases "redeemable env database user groupID code")
    case True
    from join_redeemable [OF True] assms Inr show ?thesis
      by auto
  next
    case False
    with join_not_redeemable [of env database user groupID code] assms Inr show ?thesis
      by simp
  qed
qed

text \<open>
  The participant row cannot be created: the call fails with the wrapped error and the
  store is unchanged, although the transaction had already set \<open>users_count\<close> to 2.
  With no failure the same call leaves the store with all three writes.
\<close>

theorem join_atomic_witness:
  "JoinGroupByInvitation (failing_env CreateParticipant) invited_store u2 ''g'' ''2345''
     = (Inl (TransactionError (OtherError ''connection reset'')), invited_store) \<and>
   stored_usersCount invited_store ''g'' = Some 1 \<and>
   stored_usersCount
     (fst (snd (JoinGroupByInvitation_tx (failing_env CreateParticipant) u2 ''g'' ''2345''
                  invited_store))) ''g'' = Some 2 \<and>
   find (\<lambda>i. GroupID i = ''g'' \<and> Email i = User_Email u2) (group_invitations invited_store)
     = Some invitation_a \<and>
   snd (JoinGroupByInvitation example_env invited_store u2 ''g'' ''2345'')
     = redeemed invited_store u2 ''g'' invitation_a \<and>
   snd (JoinGroupByInvitation example_env invited_store u2 ''g'' ''2345'') \<noteq> invited_store"
proof -
  let ?bad = "JoinGroupByInvitation (failing_env CreateParticipant) invited_store u2 ''g'' ''2345''"
  let ?good = "JoinGroupByInvitation example_env invited_store u2 ''g'' ''2345''"
  have b: "fst ?bad = Inl (TransactionError (OtherError ''connection reset''))"
    by code_simp
  have s: "stored_usersCount invited_store ''g'' = Some 1"
    "stored_usersCount
     (fst (snd (JoinGroupByInvitation_tx (failing_env CreateParticipant) u2 ''g'' ''2345''
                  invited_store))) ''g'' = Some 2"
    by code_simp+
  have i: "find (\<lambda>i. GroupID i = ''g'' \<and> Email i = User_Email u2) (group_invitations invited_store)
     = Some invitation_a"
    by code_simp
  have g: "snd ?good = redeemed invited_store u2 ''g'' invitation_a"
    by code_simp
  have "length (participants (snd ?good)) \<noteq> length (participants invited_store)"
    by code_simp
  then have n: "snd ?good \<noteq> invited_store"
    by auto
  have "snd ?bad = invited_store"
    using join_atomic [OF surjective_pairing [of ?bad]] by (simp add: b)
  with b s i g n show ?thesis
    by (simp add: prod_eq_iff)
qed

section \<open>Redeeming: the membership count\<close>

text \<open>
  Claim C4. A call of \<open>JoinGroupByInvitation\<close> that redeems an invitation counts the
  group's participant rows inside the transaction, writes that count plus one to the
  group's row and returns it on the group, and adds exactly one participant row, of this
  group; so afterwards the stored \<open>users_count\<close> is the number of the group's
  participant rows. After a sequence of such calls on a store whose \<open>users_count\<close> \<open>k\<close>
  is the number of participant rows, the stored count is \<open>k\<close> plus the number of calls,
  and so is the number of participant rows.
\<close>

theorem usersCount_is_participant_count:
  "(redeemable env database user groupID code \<longrightarrow>
      (\<exists>grp p.
         fst (JoinGroupByInvitation env database user groupID code) = Inr (Some grp) \<and>
         Group_UsersCount grp = participant_count database groupID + 1 \<and>
         stored_usersCount (snd (JoinGroupByInvitation env database user groupID code)) groupID
           = Some (participant_count database groupID + 1) \<and>
         participants (snd (JoinGroupByInvitation env database user groupID code))
           = participants database @ [p] \<and>
         Participant_GroupID p = groupID \<and>
         participant_count (snd (JoinGroupByInvitation env database user groupID code)) groupID
           = participant_count database groupID + 1)) \<and>
   (redeem_all env database groupID calls = Some database' \<longrightarrow>
    stored_usersCount database groupID = Some k \<longrightarrow>
    participant_count database groupID = k \<longrightarrow>
      stored_usersCount database' groupID = Some (k + int (length calls)) \<and>
      participant_count database' groupID = k + int (length calls))"
proof (intro conjI impI)
  assume r: "redeemable env database user groupID code"
  from join_redeemable [OF r] obtain grp invitation where
    g: "find (\<lambda>g. Group_GroupID g = groupID) (groups database) = Some grp"
    and j: "JoinGroupByInvitation env database user groupID code =
             (Inr (Some (grp\<lparr>Group_User := find (\<lambda>u. User_UserID u = Group_UserID grp) (users database),
                             Group_UsersCount := participant_count database groupID + 1,
                             Group_Role := ''VIP''\<rparr>)),
              redeemed database user groupID invitation)"
    by blast
  show "\<exists>grp p.
         fst (JoinGroupByInvitation env database user groupID code) = Inr (Some grp) \<and>
         Group_UsersCount grp = participant_count database groupID + 1 \<and>
         stored_usersCount (snd (JoinGroupByInvitation env database user groupID code)) groupID
           = Some (participant_count database groupID + 1) \<and>
         participants (snd (JoinGroupByInvitation env database user groupID code))
           = participants database @ [p] \<and>
         Participant_GroupID p = groupID \<and>
         participant_count (snd (JoinGroupByInvitation env database user groupID code)) groupID
           = participant_count database groupID + 1"
    unfolding j using redeemed_counts [OF g]
    by (simp add: redeemed_def)
next
  assume "redeem_all env database groupID calls = Some database'"
    "stored_usersCount database groupID = Some k" "participant_count database groupID = k"
  then show "stored_usersCount database' groupID = Some (k + int (length calls))"
    "participant_count database' groupID = k + int (length calls)"
    using redeem_all_counts by blast+
qed

text \<open>
  In \<open>invited_store\<close> the group has one participant and \<open>users_count\<close> 1. After \<open>u2\<close>
  has redeemed, both are 2; after \<open>u3\<close> has redeemed too, both are 3.
\<close>

theorem usersCount_is_participant_count_witness:
  "redeemable example_env invited_store u2 ''g'' ''2345'' \<and>
   stored_usersCount invited_store ''g'' = Some 1 \<and>
   participant_count invited_store ''g'' = 1 \<and>
   stored_usersCount (snd (JoinGroupByInvitation example_env invited_store u2 ''g'' ''2345'')) ''g''
     = Some 2 \<and>
   participant_count (snd (JoinGroupByInvitation example_env invited_store u2 ''g'' ''2345'')) ''g''
     = 2 \<and>
   redeem_all example_env invited_store ''g'' [(u2, ''2345''), (u3, '' 2345 '')] \<noteq> None \<and>
   stored_usersCount
     (the (redeem_all example_env invited_store ''g'' [(u2, ''2345''), (u3, '' 2345 '')])) ''g''
     = Some 3 \<and>
   participant_count
     (the (redeem_all example_env invited_store ''g'' [(u2, ''2345''), (u3, '' 2345 '')])) ''g''
     = 3"
proof -
  let ?calls = "[(u2, ''2345''), (u3, '' 2345 '')]"
  have r: "redeemable example_env invited_store u2 ''g'' ''2345''"
    by code_simp
  have k: "stored_usersCount invited_store ''g'' = Some 1" "participant_count invited_store ''g'' = 1"
    by code_simp+
  have "redeem_all example_env invited_store ''g'' ?calls \<noteq> None"
    by code_simp
  then obtain db where db: "redeem_all example_env invited_store ''g'' ?calls = Some db"
    by blast
  show ?thesis
    using r k db
      usersCount_is_participant_count [where env = example_env and database = invited_store
        and user = u2 and groupID = "''g''" and code = "''2345''" and calls = ?calls
        and database' = db and k = 1]
    by auto
qed

section \<open>Redeeming: the participant and the returned group\<close>

text \<open>
  Claim C9. A call of \<open>JoinGroupByInvitation\<close> that redeems an invitation adds one
  participant row, for the acting user, with the role "VIP" and the source "invitation",
  and returns the group with the owner that \<open>findUserByID\<close> has loaded from the store,
  the new count and the role. A call that does not redeem an invitation adds no
  participant row.
\<close>

theorem participant_role_and_source:
  "(redeemable env database user groupID code \<longrightarrow>
      (\<exists>grp.
         find (\<lambda>g. Group_GroupID g = groupID) (groups database) = Some grp \<and>
         fst (JoinGroupByInvitation env database user groupID code)
           = Inr (Some (grp\<lparr>Group_User := find (\<lambda>u. User_UserID u = Group_UserID grp) (users database),
                           Group_UsersCount := participant_count database groupID + 1,
                           Group_Role := ''VIP''\<rparr>)) \<and>
         participants (snd (JoinGroupByInvitation env database user groupID code))
           = participants database @
               [\<lparr>Participant_GroupID = groupID, Participant_UserID = User_UserID user,
                 Participant_Role = ''VIP'', Participant_Source = ''invitation''\<rparr>])) \<and>
   (\<not> redeemable env database user groupID code \<longrightarrow>
      participants (snd (JoinGroupByInvitation env database user groupID code))
        = participants database)"
proof (intro conjI impI)
  assume "redeemable env database user groupID code"
  from join_redeemable [OF this]
  show "\<exists>grp.
         find (\<lambda>g. Group_GroupID g = groupID) (groups database) = Some grp \<and>
         fst (JoinGroupByInvitation env database user groupID code)
           = Inr (Some (grp\<lparr>Group_User := find (\<lambda>u. User_UserID u = Group_UserID grp) (users database),
                           Group_UsersCount := participant_count database groupID + 1,
                           Group_Role := ''VIP''\<rparr>)) \<and>
         participants (snd (JoinGroupByInvitation env database user groupID code))
           = participants database @
               [\<lparr>Participant_GroupID = groupID, Participant_UserID = User_UserID user,
                 Participant_Role = ''VIP'', Participant_Source = ''invitation''\<rparr>]"
    by (auto simp: redeemed_def)
next
  assume "\<not> redeemable env database user groupID code"
  with join_not_redeemable [of env database user groupID code]
  show "participants (snd (JoinGroupByInvitation env database user groupID code))
        = participants database"
    by simp
qed

theorem participant_role_and_source_witness:
  "redeemable example_env invited_store u2 ''g'' ''2345'' \<and>
   fst (JoinGroupByInvitation example_env invited_store u2 ''g'' ''2345'')
     = Inr (Some (example_group\<lparr>Group_User := Some u1, Group_UsersCount := 2,
                    Group_Role := ''VIP''\<rparr>)) \<and>
   participants (snd (JoinGroupByInvitation example_env invited_store u2 ''g'' ''2345''))
     = participants invited_store @
         [\<lparr>Participant_GroupID = ''g'', Participant_UserID = User_UserID u2,
           Participant_Role = ''VIP'', Participant_Source = ''invitation''\<rparr>] \<and>
   User_UserID u2 = ''u2'' \<and>
   \<not> redeemable example_env invited_store u2 ''g'' ''0000'' \<and>
   participants (snd (JoinGroupByInvitation example_env invited_store u2 ''g'' ''0000''))
     = participants invited_store"
proof -
  have r: "redeemable example_env invited_store u2 ''g'' ''2345''"
    by code_simp
  have n: "\<not> redeemable example_env invited_store u2 ''g'' ''0000''"
    by code_simp
  have g: "find (\<lambda>g. Group_GroupID g = ''g'') (groups invited_store) = Some example_group"
    by code_simp
  have u: "find (\<lambda>u. User_UserID u = Group_UserID example_group) (users invited_store) = Some u1"
    by code_simp
  have c: "participant_count invited_store ''g'' = 1"
    by code_simp
  show ?thesis
    using r n
      participant_role_and_source [where env = example_env and database = invited_store
        and user = u2 and groupID = "''g''" and code = "''2345''"]
      participant_role_and_source [where env = example_env and database = invited_store
        and user = u2 and groupID = "''g''" and code = "''0000''"]
    by (auto simp: g u c u2_def)
qed

section \<open>Issuing: the capacity check at seven invitations\<close>

text \<open>
  Claim C1 says that a group never has more than \<open>MaxGroupInvitations\<close> = 7 invitation
  rows: with seven rows present, a further \<open>CreateGroupInvitation\<close> is to be refused with
  \<open>TooManyGroupInvitationsError\<close>. The function compares \<open>count > 7\<close>, so with seven rows
  the check passes: the owner's call on \<open>example_store 7\<close> returns the new invitation and
  the store then holds eight rows for the group.
\<close>

theorem eighth_invitation_is_written:
  "MaxGroupInvitations = 7 \<and>
   invitation_count (example_store 7) ''g'' = 7 \<and>
   fst (CreateGroupInvitation example_env (example_store 7) u1 ''g'' ''a@example.com'')
     = Inr (Some invitation_a) \<and>
   group_invitations (snd (CreateGroupInvitation example_env (example_store 7) u1 ''g'' ''a@example.com''))
     = group_invitations (example_store 7) @ [invitation_a] \<and>
   invitation_count
     (snd (CreateGroupInvitation example_env (example_store 7) u1 ''g'' ''a@example.com'')) ''g''
     = 8"
proof (intro conjI)
  show "MaxGroupInvitations = 7"
    by (simp add: MaxGroupInvitations_def)
  show "invitation_count (example_store 7) ''g'' = 7"
    by code_simp
  show "fst (CreateGroupInvitation example_env (example_store 7) u1 ''g'' ''a@example.com'')
     = Inr (Some invitation_a)"
    by code_simp
  show "group_invitations (snd (CreateGroupInvitation example_env (example_store 7) u1 ''g'' ''a@example.com''))
     = group_invitations (example_store 7) @ [invitation_a]"
    by code_simp
  show "invitation_count
     (snd (CreateGroupInvitation example_env (example_store 7) u1 ''g'' ''a@example.com'')) ''g''
     = 8"
    by code_simp
qed

section \<open>Redeeming without an invitation\<close>

text \<open>
  Claim C2 says that \<open>JoinGroupByInvitation\<close> returns no group and no error when the
  group exists and the acting user's email has no invitation to it. The transaction
  function has by then assigned the group it found to the captured variable, and
  \<open>JoinGroupByInvitation\<close> returns that variable: the call returns the group as
  \<open>findGroup\<close> loaded it, with no error and without writing. So does \<open>u2\<close>'s call on a
  store that never had an invitation for \<open>u2\<close>, and so does \<open>u2\<close>'s second call with the
  same code after the first has consumed the invitation.
\<close>

theorem join_without_invitation_returns_group:
  "find (\<lambda>i. GroupID i = ''g'' \<and> Email i = User_Email u2)
     (group_invitations (example_store 0)) = None \<and>
   JoinGroupByInvitation example_env (example_store 0) u2 ''g'' ''2345''
     = (Inr (Some example_group), example_store 0) \<and>
   snd (JoinGroupByInvitation example_env invited_store u2 ''g'' ''2345'')
     = redeemed invited_store u2 ''g'' invitation_a \<and>
   find (\<lambda>i. GroupID i = ''g'' \<and> Email i = User_Email u2)
     (group_invitations (redeemed invited_store u2 ''g'' invitation_a)) = None \<and>
   JoinGroupByInvitation example_env (redeemed invited_store u2 ''g'' invitation_a) u2 ''g'' ''2345''
     = (Inr (Some (example_group\<lparr>Group_UsersCount := 2\<rparr>)),
        redeemed invited_store u2 ''g'' invitation_a)"
proof (intro conjI)
  show "find (\<lambda>i. GroupID i = ''g'' \<and> Email i = User_Email u2)
     (group_invitations (example_store 0)) = None"
    by code_simp
  show "JoinGroupByInvitation example_env (example_store 0) u2 ''g'' ''2345''
     = (Inr (Some example_group), example_store 0)"
    by code_simp
  show "snd (JoinGroupByInvitation example_env invited_store u2 ''g'' ''2345'')
     = redeemed invited_store u2 ''g'' invitation_a"
    by code_simp
  show "find (\<lambda>i. GroupID i = ''g'' \<and> Email i = User_Email u2)
     (group_invitations (redeemed invited_store u2 ''g'' invitation_a)) = None"
    by code_simp
  show "JoinGroupByInvitation example_env (redeemed invited_store u2 ''g'' invitation_a) u2 ''g'' ''2345''
     = (Inr (Some (example_group\<lparr>Group_UsersCount := 2\<rparr>)),
        redeemed invited_store u2 ''g'' invitation_a)"
    by code_simp
qed

end
